theory Spec2Isabelle
  imports Complex_Main
begin

section \<open>The line-following control of the QCar (plan\_vision\_linefollow/qcar.py)\<close>

text \<open>
  The classes of qcar.py are thin calls into the camera, the line-following policy, the
  running gear and the clock. The model keeps the objects' fields in records, passes them
  explicitly, and logs every call that leaves the class, in the order it is made, in the
  trace of a world. Python floats are read as reals: the literals \<open>0.1\<close>, \<open>0.67\<close>, \<open>2.0\<close> and
  \<open>2.05\<close> are the rationals they denote and the throttle expression is the product as it is
  written.
\<close>

subsection \<open>Exceptions\<close>

text \<open>
  Modelled from the spec: plan\_vision\_linefollow/exceptions.py is not among the sources.
  The spec speaks of three exception types used as control-flow signals; they are three
  unrelated classes deriving from Exception, and StopException carries the \<open>stop_time\<close>
  it was built with. KeyError and ValueError are Python's own; OtherException stands for
  any further class deriving from Exception.
\<close>

datatype exn =
    NoContourException
  | NoImageException
  | StopException real
  | KeyError string
  | ValueError
  | OtherException string

subsection \<open>The world outside the classes\<close>

datatype 'img effect =
    EventIsSet
  | GetFlag string
  | ReadImage
  | ExecutePolicy 'img
  | ReadWriteStd real real "int list"
  | TimeTime real
  | Sleep real
  | Print exn
  | ReadRgbImage
  | Pipeline 'img
  | EventsSet string
  | EventsClear string

text \<open>
  \<open>clock\<close> holds the readings \<open>time.time()\<close> will return, \<open>ticks\<close> counts the readings
  taken so far.
\<close>

record 'img world =
  trace :: "'img effect list"
  clock :: "nat \<Rightarrow> real"
  ticks :: nat

definition log :: "'img effect \<Rightarrow> 'img world \<Rightarrow> 'img world" where
  "log e w = w\<lparr>trace := trace w @ [e]\<rparr>"

definition time_time :: "'img world \<Rightarrow> real \<times> 'img world" where
  "time_time w =
     (let t = clock w (ticks w)
      in (t, (log (TimeTime t) w)\<lparr>ticks := Suc (ticks w)\<rparr>))"

text \<open>\<open>time.sleep\<close> raises ValueError on a negative length and sleeps otherwise.\<close>

definition time_sleep :: "real \<Rightarrow> 'img world \<Rightarrow> exn option \<times> 'img world" where
  "time_sleep secs w = (if secs < 0 then (Some ValueError, w) else (None, log (Sleep secs) w))"

subsection \<open>The objects\<close>

text \<open>
  Modelled from the spec: plan\_vision\_linefollow/policy.py is not among the sources. Of
  the policy object the code reads \<open>steering\<close> and \<open>throttle\<close> and writes \<open>start\<close>; all else
  it holds is \<open>internals\<close>.
\<close>

record 'p policy_obj =
  steering :: real
  throttle :: real
  start :: real
  internals :: 'p

text \<open>
  Modelled from the spec: plan\_vision\_linefollow/utils.py (EventWrapper) is not among the
  sources. The spec calls it a single shared boolean-flag structure: \<open>event\<close> is what
  \<open>event.is_set()\<close> returns and \<open>event_types\<close> is the dictionary of flags. One cycle of the
  control reads one snapshot of it.
\<close>

record event_wrapper =
  event :: bool
  event_types :: "string \<rightharpoonup> bool"

record 'p vlf_car =
  leds :: "int list"
  counter :: int
  policy :: "'p policy_obj"
  car_start :: real

record 'p evlf_control = "'p vlf_car" +
  event_wrapper :: event_wrapper
  reduce_factor :: real
  halt_steering :: real

text \<open>
  What the camera and the policy do in one cycle. \<open>read_image\<close> is the outcome of
  \<open>front_csi.read_image()\<close>; \<open>execute_policy\<close> is \<open>policy.execute_policy\<close>, which may
  change the policy object and may raise.
\<close>

record ('img, 'p) env =
  read_image :: "exn + 'img"
  execute_policy :: "'img \<Rightarrow> 'p policy_obj \<Rightarrow> exn option \<times> 'p policy_obj"

subsection \<open>VLFCar\<close>

definition read_write_std :: "real \<Rightarrow> real \<Rightarrow> int list \<Rightarrow> 'img world \<Rightarrow> 'img world" where
  "read_write_std thr st ls w = log (ReadWriteStd thr st ls) w"

definition halt_car :: "('p, 'z) vlf_car_scheme \<Rightarrow> real \<Rightarrow> 'img world \<Rightarrow> 'img world" where
  "halt_car c st w = read_write_std 0 st (leds c) w"

text \<open>The body of the \<open>try\<close> of \<open>VLFCar.execute\<close>; \<open>Some e\<close> is the exception it raises.\<close>

definition VLFCar_try ::
  "('img, 'p) env \<Rightarrow> ('p, 'z) vlf_car_scheme \<Rightarrow> 'img world
     \<Rightarrow> exn option \<times> ('p, 'z) vlf_car_scheme \<times> 'img world" where
  "VLFCar_try en c w =
     (let (t0, w1) = time_time w;
          w2 = log ReadImage w1
      in case read_image en of
           Inl e \<Rightarrow> (Some e, c, w2)
         | Inr csi_image \<Rightarrow>
             (let w3 = log (ExecutePolicy csi_image) w2;
                  (r, p) = execute_policy en csi_image (policy c);
                  c1 = c\<lparr>policy := p\<rparr>
              in case r of
                   Some e \<Rightarrow> (Some e, c1, w3)
                 | None \<Rightarrow>
                     (let st = steering (policy c1);
                          thr = throttle (policy c1) * \<bar>cos (2.05 * st)\<bar>
                      in (None, c1, read_write_std thr st (leds c1) w3))))"

definition VLFCar_execute ::
  "('img, 'p) env \<Rightarrow> ('p, 'z) vlf_car_scheme \<Rightarrow> 'img world
     \<Rightarrow> exn option \<times> ('p, 'z) vlf_car_scheme \<times> 'img world" where
  "VLFCar_execute en c w =
     (case VLFCar_try en c w of
        (None, c', w') \<Rightarrow> (None, c', w')
      | (Some NoContourException, c', w') \<Rightarrow> (None, c', w')
      | (Some NoImageException, c', w') \<Rightarrow> (None, c', w')
      | (Some e, c', w') \<Rightarrow> (Some e, c', w'))"

subsection \<open>EVLFControl\<close>

text \<open>\<open>shared_events[key]\<close>: KeyError when the dictionary has no such key.\<close>

definition getitem :: "(string \<rightharpoonup> bool) \<Rightarrow> string \<Rightarrow> 'img world \<Rightarrow> (exn + bool) \<times> 'img world" where
  "getitem d k w = (case d k of None \<Rightarrow> Inl (KeyError k) | Some v \<Rightarrow> Inr v, log (GetFlag k) w)"

definition handle_events ::
  "'p evlf_control \<Rightarrow> 'img world \<Rightarrow> exn option \<times> 'p evlf_control \<times> 'img world" where
  "handle_events c w =
     (let w0 = log EventIsSet w
      in if event (event_wrapper c) then
           (let shared_events = event_types (event_wrapper c)
            in case getitem shared_events ''horizontal_line'' w0 of
                 (Inl e, w1) \<Rightarrow> (Some e, c, w1)
               | (Inr hl, w1) \<Rightarrow>
                   (let c1 = (if hl then c\<lparr>reduce_factor := 0.67\<rparr> else c\<lparr>reduce_factor := 1.0\<rparr>)
                    in case getitem shared_events ''red_light'' w1 of
                         (Inl e, w2) \<Rightarrow> (Some e, c1, w2)
                       | (Inr rl, w2) \<Rightarrow>
                           if rl then
                             (Some (StopException 0.1),
                              c1\<lparr>halt_steering := steering (policy c1)\<rparr>, w2)
                           else
                             (case getitem shared_events ''stop_sign'' w2 of
                                (Inl e, w3) \<Rightarrow> (Some e, c1, w3)
                              | (Inr ss, w3) \<Rightarrow>
                                  if ss then
                                    (let stop_time = 3
                                     in (Some (StopException stop_time),
                                         c1\<lparr>halt_steering := 0.0\<rparr>, w3))
                                  else (None, c1, w3))))
         else (None, c\<lparr>reduce_factor := 1.0\<rparr>, w0))"

text \<open>The body of the \<open>try\<close> of \<open>EVLFControl.execute\<close>.\<close>

definition EVLFControl_try ::
  "('img, 'p) env \<Rightarrow> 'p evlf_control \<Rightarrow> 'img world
     \<Rightarrow> exn option \<times> 'p evlf_control \<times> 'img world" where
  "EVLFControl_try en c w =
     (case handle_events c w of
        (Some e, c1, w1) \<Rightarrow> (Some e, c1, w1)
      | (None, c1, w1) \<Rightarrow>
          (let w2 = log ReadImage w1
           in case read_image en of
                Inl e \<Rightarrow> (Some e, c1, w2)
              | Inr csi_image \<Rightarrow>
                  (let w3 = log (ExecutePolicy csi_image) w2;
                       (r, p) = execute_policy en csi_image (policy c1);
                       c2 = c1\<lparr>policy := p\<rparr>
                   in case r of
                        Some e \<Rightarrow> (Some e, c2, w3)
                      | None \<Rightarrow>
                          (let (t, w4) = time_time w3;
                               c3 = c2\<lparr>car_start := t\<rparr>;
                               st = steering (policy c3);
                               thr = throttle (policy c3) * \<bar>cos (2.0 * st)\<bar> * reduce_factor c3
                           in (None, c3, read_write_std thr st (leds c3) w4)))))"

text \<open>
  The handlers of \<open>EVLFControl.execute\<close>, in the order of the source. An exception raised
  inside a handler (the ValueError of \<open>time.sleep\<close>) leaves \<open>execute\<close> as it is.
\<close>

definition EVLFControl_execute ::
  "('img, 'p) env \<Rightarrow> 'p evlf_control \<Rightarrow> 'img world
     \<Rightarrow> exn option \<times> 'p evlf_control \<times> 'img world" where
  "EVLFControl_execute en c w =
     (case EVLFControl_try en c w of
        (None, c', w') \<Rightarrow> (None, c', w')
      | (Some NoContourException, c', w') \<Rightarrow> (None, c', w')
      | (Some NoImageException, c', w') \<Rightarrow> (None, c', w')
      | (Some (StopException stop_time), c', w') \<Rightarrow>
          (let w1 = halt_car c' (halt_steering c') w'
           in case time_sleep stop_time w1 of
                (Some e, w2) \<Rightarrow> (Some e, c', w2)
              | (None, w2) \<Rightarrow>
                  (let (t, w3) = time_time w2
                   in (None, c'\<lparr>policy := (policy c')\<lparr>start := t\<rparr>\<rparr>, w3)))
      | (Some e, c', w') \<Rightarrow> (Some e, c', log (Print e) w'))"

text \<open>The actuator commands in a trace.\<close>

fun is_write :: "'img effect \<Rightarrow> bool" where
  "is_write (ReadWriteStd thr st ls) = True"
| "is_write e = False"

definition writes :: "'img effect list \<Rightarrow> 'img effect list" where
  "writes tr = filter is_write tr"

text \<open>What one call of \<open>execute\<close> adds to the trace of the world it started in.\<close>

definition cycle_trace :: "'img world \<Rightarrow> 'img world \<Rightarrow> 'img effect list" where
  "cycle_trace w w' = drop (length (trace w)) (trace w')"

text \<open>
  The object after \<open>__init__\<close> and \<open>setup\<close>: eight dark LEDs, counter 0, reduce factor 1.0,
  halt steering 0.0, with the policy object and the start time \<open>setup\<close> gave it.
\<close>

definition EVLFControl_init :: "event_wrapper \<Rightarrow> 'p policy_obj \<Rightarrow> real \<Rightarrow> 'p evlf_control" where
  "EVLFControl_init ew pol t =
     \<lparr>leds = [0, 0, 0, 0, 0, 0, 0, 0], counter = 0, policy = pol, car_start = t,
      event_wrapper = ew, reduce_factor = 1.0, halt_steering = 0.0\<rparr>"

subsection \<open>EVLFObserver\<close>

text \<open>
  Modelled from the spec: plan\_vision\_linefollow/decision\_pipeline.py (DecisionMaker) is
  not among the sources. Of the pipeline object the code reads \<open>detection_flags\<close>, a
  dictionary of booleans, kept here as the list of its items in iteration order.
\<close>

record 'q pipeline_obj =
  detection_flags :: "(string \<times> bool) list"
  pipeline_internals :: 'q

record 'q evlf_observer =
  events :: event_wrapper
  pipeline :: "'q pipeline_obj"

text \<open>
  \<open>read_rgb_image\<close> is the outcome of \<open>rgbd.read_rgb_image()\<close> (\<open>Inr None\<close> is Python's
  \<open>None\<close>), \<open>pipeline_call\<close> is the call of the pipeline on an image. What \<open>set\<close> and
  \<open>clear\<close> do to the Event object is said nowhere: \<open>resignal key v ev\<close> is its state after
  the flag \<open>key\<close> of the wrapper \<open>ev\<close> got the value \<open>v\<close>.
\<close>

record ('img, 'q) obs_env =
  read_rgb_image :: "exn + 'img option"
  pipeline_call :: "'img \<Rightarrow> 'q pipeline_obj \<Rightarrow> exn option \<times> 'q pipeline_obj"
  resignal :: "string \<Rightarrow> bool \<Rightarrow> event_wrapper \<Rightarrow> bool"

text \<open>
  Modelled from the spec: \<open>EventWrapper.set\<close> and \<open>EventWrapper.clear\<close>
  (plan\_vision\_linefollow/utils.py) are not among the sources. By the spec the observer
  republishes boolean flags, last write wins: \<open>set(key)\<close> makes the flag \<open>key\<close> true and
  \<open>clear(key)\<close> makes it false.
\<close>

definition events_set ::
  "('img, 'q) obs_env \<Rightarrow> string \<Rightarrow> event_wrapper \<Rightarrow> 'img world \<Rightarrow> event_wrapper \<times> 'img world" where
  "events_set en key ev w =
     (\<lparr>event = resignal en key True ev, event_types = (event_types ev)(key \<mapsto> True)\<rparr>,
      log (EventsSet key) w)"

definition events_clear ::
  "('img, 'q) obs_env \<Rightarrow> string \<Rightarrow> event_wrapper \<Rightarrow> 'img world \<Rightarrow> event_wrapper \<times> 'img world" where
  "events_clear en key ev w =
     (\<lparr>event = resignal en key False ev, event_types = (event_types ev)(key \<mapsto> False)\<rparr>,
      log (EventsClear key) w)"

text \<open>The loop \<open>for key, value in detection_flags.items()\<close>.\<close>

fun publish ::
  "('img, 'q) obs_env \<Rightarrow> (string \<times> bool) list \<Rightarrow> event_wrapper \<Rightarrow> 'img world
     \<Rightarrow> event_wrapper \<times> 'img world" where
  "publish en [] ev w = (ev, w)"
| "publish en ((key, v) # kvs) ev w =
     (case (if v then events_set en key ev w else events_clear en key ev w) of
        (ev', w') \<Rightarrow> publish en kvs ev' w')"

definition EVLFObserver_try ::
  "('img, 'q) obs_env \<Rightarrow> 'q evlf_observer \<Rightarrow> 'img world
     \<Rightarrow> exn option \<times> 'q evlf_observer \<times> 'img world" where
  "EVLFObserver_try en ob w =
     (let w1 = log ReadRgbImage w
      in case read_rgb_image en of
           Inl e \<Rightarrow> (Some e, ob, w1)
         | Inr None \<Rightarrow> (None, ob, w1)
         | Inr (Some rgbd_image) \<Rightarrow>
             (let w2 = log (Pipeline rgbd_image) w1;
                  (r, pl) = pipeline_call en rgbd_image (pipeline ob);
                  ob1 = ob\<lparr>pipeline := pl\<rparr>
              in case r of
                   Some e \<Rightarrow> (Some e, ob1, w2)
                 | None \<Rightarrow>
                     (let (ev, w3) = publish en (detection_flags (pipeline ob1)) (events ob1) w2
                      in (None, ob1\<lparr>events := ev\<rparr>, w3))))"

definition EVLFObserver_execute ::
  "('img, 'q) obs_env \<Rightarrow> 'q evlf_observer \<Rightarrow> 'img world
     \<Rightarrow> exn option \<times> 'q evlf_observer \<times> 'img world" where
  "EVLFObserver_execute en ob w =
     (case EVLFObserver_try en ob w of
        (None, ob', w') \<Rightarrow> (None, ob', w')
      | (Some e, ob', w') \<Rightarrow> (Some e, ob', log (Print e) w'))"

text \<open>The call \<open>set\<close> or \<open>clear\<close> that republishes one item of the detection result.\<close>

definition republish :: "string \<times> bool \<Rightarrow> 'img effect" where
  "republish kv = (if snd kv then EventsSet (fst kv) else EventsClear (fst kv))"

section \<open>The simulation bootstrap (qlabs\_setup.py)\<close>








section \<open>Queues between processes (core/util.py)\<close>

text \<open>
  A queue of at most \<open>maxsize\<close> items (\<open>maxsize = 0\<close>: no bound of its own). \<open>put\<close> on a full
  queue raises Full when it does not block or has a timeout, and waits for a reader
  otherwise; with no other process in the model that wait never ends (\<open>Blocks\<close>).
\<close>

record 'a mp_queue =
  maxsize :: nat
  items :: "'a list"

datatype py_error = Full | Empty | AttributeError string

datatype 'a outcome = Returns 'a | Raises py_error | Blocks

definition full :: "'a mp_queue \<Rightarrow> bool" where
  "full q = (0 < maxsize q \<and> maxsize q \<le> length (items q))"

definition put :: "'a mp_queue \<Rightarrow> 'a \<Rightarrow> bool \<Rightarrow> real option \<Rightarrow> 'a mp_queue outcome" where
  "put q item block timeout =
     (if full q then (if block \<and> timeout = None then Blocks else Raises Full)
      else Returns (q\<lparr>items := items q @ [item]\<rparr>))"

definition get_nowait :: "'a mp_queue \<Rightarrow> 'a mp_queue outcome" where
  "get_nowait q = (case items q of [] \<Rightarrow> Raises Empty | x # xs \<Rightarrow> Returns (q\<lparr>items := xs\<rparr>))"

text \<open>
  The name \<open>Queue\<close> of util.py is bound by \<open>from multiprocessing import Queue\<close>: it is the
  function that builds queues, not the module \<open>queue\<close>, and it has no attribute \<open>Full\<close>. The
  expression \<open>Queue.Full\<close> of the \<open>except\<close> clause is evaluated when the \<open>try\<close> body has
  raised, and raises AttributeError. \<open>Inr\<close> would be the class it names.
\<close>

definition Queue_Full :: "py_error + py_error" where
  "Queue_Full = Inl (AttributeError ''Full'')"

definition handle_interprocess ::
  "'a mp_queue \<Rightarrow> 'a \<Rightarrow> bool \<Rightarrow> real option \<Rightarrow> 'a mp_queue outcome" where
  "handle_interprocess data_queue item block timeout =
     (case put data_queue item block timeout of
        Returns q \<Rightarrow> Returns q
      | Blocks \<Rightarrow> Blocks
      | Raises e \<Rightarrow>
          (case Queue_Full of
             Inl a \<Rightarrow> Raises a
           | Inr cls \<Rightarrow>
               if e = cls then
                 (case get_nowait data_queue of
                    Returns q1 \<Rightarrow> put q1 item block timeout
                  | Raises e1 \<Rightarrow> Raises e1
                  | Blocks \<Rightarrow> Blocks)
               else Raises e))"

section \<open>Concrete cycles\<close>

text \<open>
  A car after \<open>setup\<close> with steering 0.5 and throttle 0.1, a world with a clock that reads
  \<open>0, 1, 2, ...\<close>, a camera that returns the image \<open>img\<close>, and three policies: one that steers
  by the image, one that finds no contour, one that fails.
\<close>

definition flags :: "bool \<Rightarrow> bool \<Rightarrow> bool \<Rightarrow> string \<rightharpoonup> bool" where
  "flags hl rl ss = [''horizontal_line'' \<mapsto> hl, ''red_light'' \<mapsto> rl, ''stop_sign'' \<mapsto> ss]"

definition car :: "bool \<Rightarrow> (string \<rightharpoonup> bool) \<Rightarrow> unit evlf_control" where
  "car ev fl =
     EVLFControl_init \<lparr>event = ev, event_types = fl\<rparr>
       \<lparr>steering = 1 / 2, throttle = 1 / 10, start = 0, internals = ()\<rparr> 0"

definition world0 :: "real world" where
  "world0 = \<lparr>trace = [], clock = (\<lambda>n. real n), ticks = 0\<rparr>"

definition steer_by_image :: "real \<Rightarrow> (real, unit) env" where
  "steer_by_image img = \<lparr>read_image = Inr img, execute_policy = (\<lambda>i p. (None, p\<lparr>steering := i\<rparr>))\<rparr>"

definition policy_raises :: "exn \<Rightarrow> (real, unit) env" where
  "policy_raises e = \<lparr>read_image = Inr 0, execute_policy = (\<lambda>i p. (Some e, p))\<rparr>"

definition detects :: "(string \<times> bool) list \<Rightarrow> (real, unit) obs_env" where
  "detects fl =
     \<lparr>read_rgb_image = Inr (Some 0),
      pipeline_call = (\<lambda>i p. (None, p\<lparr>detection_flags := fl\<rparr>)),
      resignal = (\<lambda>k v ev. True)\<rparr>"

definition observer0 :: "unit evlf_observer" where
  "observer0 =
     \<lparr>events = \<lparr>event = False, event_types = flags True True False\<rparr>,
      pipeline = \<lparr>detection_flags = [], pipeline_internals = ()\<rparr>\<rparr>"

section \<open>Properties of the control cycle\<close>

lemmas world_defs = log_def time_time_def time_sleep_def read_write_std_def halt_car_def getitem_def
lemmas fixture_defs = flags_def car_def world0_def steer_by_image_def policy_raises_def
  EVLFControl_init_def

subsection \<open>Stops at a red light and at a stop sign\<close>

text \<open>
  C1. In a cycle in which the shared event is set and the flag \<open>red_light\<close> is true (the
  flags dictionary holding \<open>horizontal_line\<close>, which is read first), \<open>handle_events\<close> stores
  the policy's current steering in \<open>halt_steering\<close> and raises StopException with stop time
  0.1; \<open>execute\<close> catches it and returns normally, and the cycle's calls are, after the flag
  reads: one actuator command with throttle 0 at that steering, a sleep of 0.1, and one
  clock reading, which becomes the policy's start time. Neither the camera nor the policy
  is called and no other actuator command is written.
\<close>

theorem red_light_stop:
  assumes "event (event_wrapper c)"
    and "event_types (event_wrapper c) ''horizontal_line'' = Some hl"
    and "event_types (event_wrapper c) ''red_light'' = Some True"
  shows "handle_events c w =
           (Some (StopException 0.1),
            c\<lparr>reduce_factor := (if hl then 0.67 else 1.0), halt_steering := steering (policy c)\<rparr>,
            w\<lparr>trace := trace w @ [EventIsSet, GetFlag ''horizontal_line'', GetFlag ''red_light'']\<rparr>)
       \<and> EVLFControl_execute en c w =
           (None,
            c\<lparr>policy := (policy c)\<lparr>start := clock w (ticks w)\<rparr>,
              reduce_factor := (if hl then 0.67 else 1.0), halt_steering := steering (policy c)\<rparr>,
            w\<lparr>trace := trace w @ [EventIsSet, GetFlag ''horizontal_line'', GetFlag ''red_light'',
                                    ReadWriteStd 0 (steering (policy c)) (leds c),
                                    Sleep 0.1, TimeTime (clock w (ticks w))],
              ticks := Suc (ticks w)\<rparr>)"
  using assms
  by (simp add: handle_events_def EVLFControl_execute_def EVLFControl_try_def world_defs Let_def)

text \<open>The red-light cycle of the car with steering 0.5.\<close>

theorem red_light_stop_witness:
  "event (event_wrapper (car True (flags False True False)))
   \<and> event_types (event_wrapper (car True (flags False True False))) ''horizontal_line'' = Some False
   \<and> event_types (event_wrapper (car True (flags False True False))) ''red_light'' = Some True
   \<and> fst (handle_events (car True (flags False True False)) world0) = Some (StopException 0.1)
   \<and> halt_steering (fst (snd (handle_events (car True (flags False True False)) world0))) = 1 / 2
   \<and> fst (EVLFControl_execute (steer_by_image 0) (car True (flags False True False)) world0) = None
   \<and> trace (snd (snd (EVLFControl_execute (steer_by_image 0) (car True (flags False True False)) world0)))
       = [EventIsSet, GetFlag ''horizontal_line'', GetFlag ''red_light'',
          ReadWriteStd 0 (1 / 2) [0, 0, 0, 0, 0, 0, 0, 0], Sleep 0.1, TimeTime 0]
   \<and> start (policy (fst (snd (EVLFControl_execute (steer_by_image 0)
         (car True (flags False True False)) world0)))) = 0"
  using red_light_stop [of "car True (flags False True False)" False world0 "steer_by_image 0"]
  by (simp add: fixture_defs)

text \<open>
  C2. In a cycle in which the shared event is set, \<open>red_light\<close> is false and \<open>stop_sign\<close> is
  true, \<open>handle_events\<close> sets \<open>halt_steering\<close> to 0.0 and raises StopException with stop
  time 3; \<open>execute\<close> then writes the halt command (throttle 0, steering 0), sleeps 3
  seconds and writes nothing else.
\<close>

theorem stop_sign_stop:
  assumes "event (event_wrapper c)"
    and "event_types (event_wrapper c) ''horizontal_line'' = Some hl"
    and "event_types (event_wrapper c) ''red_light'' = Some False"
    and "event_types (event_wrapper c) ''stop_sign'' = Some True"
  shows "handle_events c w =
           (Some (StopException 3),
            c\<lparr>reduce_factor := (if hl then 0.67 else 1.0), halt_steering := 0.0\<rparr>,
            w\<lparr>trace := trace w @ [EventIsSet, GetFlag ''horizontal_line'', GetFlag ''red_light'',
                                    GetFlag ''stop_sign'']\<rparr>)
       \<and> EVLFControl_execute en c w =
           (None,
            c\<lparr>policy := (policy c)\<lparr>start := clock w (ticks w)\<rparr>,
              reduce_factor := (if hl then 0.67 else 1.0), halt_steering := 0.0\<rparr>,
            w\<lparr>trace := trace w @ [EventIsSet, GetFlag ''horizontal_line'', GetFlag ''red_light'',
                                    GetFlag ''stop_sign'',
                                    ReadWriteStd 0 0 (leds c), Sleep 3, TimeTime (clock w (ticks w))],
              ticks := Suc (ticks w)\<rparr>)"
  using assms
  by (simp add: handle_events_def EVLFControl_execute_def EVLFControl_try_def world_defs Let_def)

text \<open>The stop-sign cycle of the car, on a horizontal line.\<close>

theorem stop_sign_stop_witness:
  "event (event_wrapper (car True (flags True False True)))
   \<and> event_types (event_wrapper (car True (flags True False True))) ''horizontal_line'' = Some True
   \<and> event_types (event_wrapper (car True (flags True False True))) ''red_light'' = Some False
   \<and> event_types (event_wrapper (car True (flags True False True))) ''stop_sign'' = Some True
   \<and> fst (handle_events (car True (flags True False True)) world0) = Some (StopException 3)
   \<and> halt_steering (fst (snd (handle_events (car True (flags True False True)) world0))) = 0
   \<and> fst (EVLFControl_execute (steer_by_image 0) (car True (flags True False True)) world0) = None
   \<and> trace (snd (snd (EVLFControl_execute (steer_by_image 0) (car True (flags True False True)) world0)))
       = [EventIsSet, GetFlag ''horizontal_line'', GetFlag ''red_light'', GetFlag ''stop_sign'',
          ReadWriteStd 0 0 [0, 0, 0, 0, 0, 0, 0, 0], Sleep 3, TimeTime 0]"
  using stop_sign_stop [of "car True (flags True False True)" True world0 "steer_by_image 0"]
  by (simp add: fixture_defs)

text \<open>
  C7. When the shared event is set and both \<open>red_light\<close> and \<open>stop_sign\<close> are true, the
  red-light branch wins: \<open>handle_events\<close> raises StopException with stop time 0.1 and not
  3, \<open>halt_steering\<close> is the policy's current steering, the flag \<open>stop_sign\<close> is not even
  read, and the cycle sleeps no 3 seconds and halts at the policy's steering.
\<close>

theorem red_light_before_stop_sign:
  assumes "event (event_wrapper c)"
    and "event_types (event_wrapper c) ''horizontal_line'' = Some hl"
    and "event_types (event_wrapper c) ''red_light'' = Some True"
    and "event_types (event_wrapper c) ''stop_sign'' = Some True"
  shows "fst (handle_events c w) = Some (StopException 0.1)
       \<and> fst (handle_events c w) \<noteq> Some (StopException 3)
       \<and> halt_steering (fst (snd (handle_events c w))) = steering (policy c)
       \<and> GetFlag ''stop_sign'' \<notin> set (cycle_trace w (snd (snd (handle_events c w))))
       \<and> Sleep 3 \<notin> set (cycle_trace w (snd (snd (EVLFControl_execute en c w))))
       \<and> writes (cycle_trace w (snd (snd (EVLFControl_execute en c w))))
           = [ReadWriteStd 0 (steering (policy c)) (leds c)]"
  using assms
  by (simp add: handle_events_def EVLFControl_execute_def EVLFControl_try_def world_defs Let_def
      cycle_trace_def writes_def)

text \<open>A cycle with a red light and a stop sign at once.\<close>

theorem red_light_before_stop_sign_witness:
  "event (event_wrapper (car True (flags False True True)))
   \<and> event_types (event_wrapper (car True (flags False True True))) ''horizontal_line'' = Some False
   \<and> event_types (event_wrapper (car True (flags False True True))) ''red_light'' = Some True
   \<and> event_types (event_wrapper (car True (flags False True True))) ''stop_sign'' = Some True
   \<and> fst (handle_events (car True (flags False True True)) world0) = Some (StopException 0.1)
   \<and> halt_steering (fst (snd (handle_events (car True (flags False True True)) world0))) = 1 / 2"
  using red_light_before_stop_sign [of "car True (flags False True True)" False world0 "steer_by_image 0"]
  by (simp add: fixture_defs)

subsection \<open>What a cycle adds to the trace\<close>

lemmas cycle_defs = handle_events_def EVLFControl_execute_def EVLFControl_try_def
  VLFCar_execute_def VLFCar_try_def world_defs Let_def cycle_trace_def writes_def

lemma handle_events_policy:
  "policy (fst (snd (handle_events c w))) = policy c \<and> leds (fst (snd (handle_events c w))) = leds c"
  by (simp add: handle_events_def world_defs Let_def split: option.splits)

lemma handle_events_trace:
  "\<exists>ks. trace (snd (snd (handle_events c w))) = trace w @ EventIsSet # map GetFlag ks"
proof (cases "event (event_wrapper c)")
  case False
  then have "trace (snd (snd (handle_events c w))) = trace w @ EventIsSet # map GetFlag []"
    by (simp add: handle_events_def world_defs Let_def)
  then show ?thesis by blast
next
  case True
  have "trace (snd (snd (handle_events c w))) = trace w @ EventIsSet # map GetFlag [''horizontal_line'']
      \<or> trace (snd (snd (handle_events c w))) = trace w @ EventIsSet # map GetFlag [''horizontal_line'', ''red_light'']
      \<or> trace (snd (snd (handle_events c w))) = trace w @ EventIsSet # map GetFlag [''horizontal_line'', ''red_light'', ''stop_sign'']"
    using True by (simp add: handle_events_def world_defs Let_def split: option.splits)
  then show ?thesis by blast
qed

lemma try_raises_no_write:
  "EVLFControl_try en c w = (Some e, c1, w1) \<Longrightarrow> writes (cycle_trace w w1) = []"
  by (auto simp: cycle_defs split: option.splits sum.splits prod.splits if_splits)

lemma try_no_sleep:
  "EVLFControl_try en c w = (r, c1, w1) \<Longrightarrow> Sleep t \<notin> set (cycle_trace w w1)"
  by (auto simp: cycle_defs split: option.splits sum.splits prod.splits if_splits)

lemma try_extends:
  "EVLFControl_try en c w = (r, c1, w1) \<Longrightarrow> \<exists>tr. trace w1 = trace w @ tr"
  by (auto simp: cycle_defs split: option.splits sum.splits prod.splits if_splits)


subsection \<open>The order of a cycle that runs through\<close>

text \<open>
  C3, as amended. In a cycle in which \<open>handle_events\<close> raises nothing and neither the
  camera nor the policy raises, \<open>execute\<close> first reads the shared event flags
  (\<open>event.is_set()\<close>, then the flags it looks up), then reads one camera image, then calls
  the policy once on that image and on the policy state the cycle started with, takes the
  time, and last writes one actuator command: its steering is the policy's steering and
  its throttle is the policy's throttle times \<open>abs(cos(2.0 * steering))\<close> times the reduce
  factor. Nothing else is called.
\<close>

theorem normal_cycle_order:
  assumes "handle_events c w = (None, c1, w1)"
    and "read_image en = Inr img"
    and "execute_policy en img (policy c) = (None, p)"
  shows "EVLFControl_execute en c w =
           (None,
            c1\<lparr>policy := p, car_start := clock w1 (ticks w1)\<rparr>,
            w1\<lparr>trace := trace w1 @
                   [ReadImage, ExecutePolicy img, TimeTime (clock w1 (ticks w1)),
                    ReadWriteStd (throttle p * \<bar>cos (2.0 * steering p)\<bar> * reduce_factor c1)
                      (steering p) (leds c)],
               ticks := Suc (ticks w1)\<rparr>)
       \<and> (\<exists>ks. trace w1 = trace w @ EventIsSet # map GetFlag ks)"
proof -
  have pol: "policy c1 = policy c" and led: "leds c1 = leds c"
    using handle_events_policy [of c w] assms(1) by simp_all
  have "EVLFControl_execute en c w =
           (None,
            c1\<lparr>policy := p, car_start := clock w1 (ticks w1)\<rparr>,
            w1\<lparr>trace := trace w1 @
                   [ReadImage, ExecutePolicy img, TimeTime (clock w1 (ticks w1)),
                    ReadWriteStd (throttle p * \<bar>cos (2.0 * steering p)\<bar> * reduce_factor c1)
                      (steering p) (leds c)],
               ticks := Suc (ticks w1)\<rparr>)"
    using assms pol led
    by (simp add: EVLFControl_execute_def EVLFControl_try_def world_defs Let_def)
  moreover have "\<exists>ks. trace w1 = trace w @ EventIsSet # map GetFlag ks"
    using handle_events_trace [of c w] assms(1) by simp
  ultimately show ?thesis by blast
qed

text \<open>A cycle on a horizontal line: the throttle 0.1 is cut to 0.067.\<close>

theorem normal_cycle_order_witness:
  "handle_events (car True (flags True False False)) world0
     = (None, (car True (flags True False False))\<lparr>reduce_factor := 0.67\<rparr>,
        world0\<lparr>trace := [EventIsSet, GetFlag ''horizontal_line'', GetFlag ''red_light'',
                           GetFlag ''stop_sign'']\<rparr>)
   \<and> read_image (steer_by_image 0) = Inr 0
   \<and> fst (execute_policy (steer_by_image 0) 0 (policy (car True (flags True False False)))) = None
   \<and> fst (EVLFControl_execute (steer_by_image 0) (car True (flags True False False)) world0) = None
   \<and> trace (snd (snd (EVLFControl_execute (steer_by_image 0) (car True (flags True False False)) world0)))
       = [EventIsSet, GetFlag ''horizontal_line'', GetFlag ''red_light'', GetFlag ''stop_sign'',
          ReadImage, ExecutePolicy 0, TimeTime 0,
          ReadWriteStd (67 / 1000) 0 [0, 0, 0, 0, 0, 0, 0, 0]]"
proof -
  have h: "handle_events (car True (flags True False False)) (world0 :: real world)
     = (None, (car True (flags True False False))\<lparr>reduce_factor := 0.67\<rparr>,
        world0\<lparr>trace := [EventIsSet, GetFlag ''horizontal_line'', GetFlag ''red_light'',
                           GetFlag ''stop_sign'']\<rparr>)"
    by (simp add: handle_events_def world_defs Let_def fixture_defs)
  have p: "execute_policy (steer_by_image 0) 0 (policy (car True (flags True False False)))
     = (None, (policy (car True (flags True False False)))\<lparr>steering := 0\<rparr>)"
    by (simp add: fixture_defs)
  have i: "read_image (steer_by_image 0) = Inr 0"
    by (simp add: fixture_defs)
  show ?thesis
    using normal_cycle_order [OF h i p] h
    by (simp add: fixture_defs)
qed

text \<open>
  C3 as it is stated fails where no stop is raised and the policy finds no contour: the
  event is not set, no StopException is raised, \<open>execute\<close> returns normally, the policy
  has been called, and no actuator command is written.
\<close>

theorem skipped_cycle_counterexample:
  "\<not> event (event_wrapper (car False (flags False False False)))
   \<and> fst (EVLFControl_try (policy_raises NoContourException) (car False (flags False False False)) world0)
       = Some NoContourException
   \<and> fst (EVLFControl_execute (policy_raises NoContourException) (car False (flags False False False)) world0)
       = None
   \<and> trace (snd (snd (EVLFControl_execute (policy_raises NoContourException)
         (car False (flags False False False)) world0)))
       = [EventIsSet, ReadImage, ExecutePolicy 0]
   \<and> writes (trace (snd (snd (EVLFControl_execute (policy_raises NoContourException)
         (car False (flags False False False)) world0)))) = []"
  by (simp add: cycle_defs fixture_defs)

subsection \<open>The handlers of \<open>execute\<close>\<close>

lemma execute_pass:
  "EVLFControl_try en c w = (None, c1, w1) \<Longrightarrow> EVLFControl_execute en c w = (None, c1, w1)"
  by (simp add: EVLFControl_execute_def)

lemma execute_skip:
  "EVLFControl_try en c w = (Some e, c1, w1) \<Longrightarrow> e = NoContourException \<or> e = NoImageException
     \<Longrightarrow> EVLFControl_execute en c w = (None, c1, w1)"
  by (auto simp: EVLFControl_execute_def)

lemma execute_stop:
  "EVLFControl_try en c w = (Some (StopException t), c1, w1) \<Longrightarrow> 0 \<le> t
     \<Longrightarrow> EVLFControl_execute en c w =
           (None, c1\<lparr>policy := (policy c1)\<lparr>start := clock w1 (ticks w1)\<rparr>\<rparr>,
            w1\<lparr>trace := trace w1 @ [ReadWriteStd 0 (halt_steering c1) (leds c1), Sleep t,
                                      TimeTime (clock w1 (ticks w1))],
               ticks := Suc (ticks w1)\<rparr>)"
  by (simp add: EVLFControl_execute_def world_defs Let_def)

text \<open>A negative stop time: the halt command is written, \<open>time.sleep\<close> raises, nothing is printed.\<close>

lemma execute_stop_negative:
  "EVLFControl_try en c w = (Some (StopException t), c1, w1) \<Longrightarrow> t < 0
     \<Longrightarrow> EVLFControl_execute en c w =
           (Some ValueError, c1,
            w1\<lparr>trace := trace w1 @ [ReadWriteStd 0 (halt_steering c1) (leds c1)]\<rparr>)"
  by (simp add: EVLFControl_execute_def world_defs Let_def)

lemma execute_reraise:
  "EVLFControl_try en c w = (Some e, c1, w1) \<Longrightarrow> e \<noteq> NoContourException
     \<Longrightarrow> e \<noteq> NoImageException \<Longrightarrow> \<forall>t. e \<noteq> StopException t
     \<Longrightarrow> EVLFControl_execute en c w = (Some e, c1, w1\<lparr>trace := trace w1 @ [Print e]\<rparr>)"
  by (cases e) (simp_all add: EVLFControl_execute_def world_defs)

lemma execute_sleep_only_stop:
  assumes "EVLFControl_try en c w = (r, c1, w1)"
    and "Sleep t \<in> set (cycle_trace w (snd (snd (EVLFControl_execute en c w))))"
  shows "r = Some (StopException t)"
proof -
  obtain tr where tr: "trace w1 = trace w @ tr"
    using try_extends [OF assms(1)] by blast
  have ns: "Sleep t \<notin> set tr"
    using try_no_sleep [OF assms(1), of t] tr by (simp add: cycle_trace_def)
  show ?thesis
  proof (cases r)
    case None
    then show ?thesis
      using assms tr ns by (simp add: EVLFControl_execute_def cycle_trace_def)
  next
    case (Some e)
    then show ?thesis
      using assms tr ns
      by (cases e) (auto simp: EVLFControl_execute_def cycle_trace_def world_defs Let_def
          split: if_splits)
  qed
qed

text \<open>
  C4. Let the \<open>try\<close> body of \<open>EVLFControl.execute\<close> end with \<open>r\<close>. If it raises nothing,
  \<open>execute\<close> returns. If it raises NoContourException or NoImageException, \<open>execute\<close>
  returns normally with nothing more called, and the cycle has written no actuator
  command. If it raises StopException with a stop time that is no negative number,
  \<open>execute\<close> writes the halt command at \<open>halt_steering\<close>, sleeps for the stop time, resets
  the policy's start time and returns normally. Any other exception is printed and raised
  again. A cycle sleeps only when StopException was raised, and then for its stop time.
\<close>

theorem execute_handlers:
  assumes "EVLFControl_try en c w = (r, c1, w1)"
  shows "(r = None \<longrightarrow> EVLFControl_execute en c w = (None, c1, w1))
       \<and> (r = Some NoContourException \<or> r = Some NoImageException \<longrightarrow>
            EVLFControl_execute en c w = (None, c1, w1) \<and> writes (cycle_trace w w1) = [])
       \<and> (\<forall>t. r = Some (StopException t) \<and> 0 \<le> t \<longrightarrow>
            EVLFControl_execute en c w =
              (None, c1\<lparr>policy := (policy c1)\<lparr>start := clock w1 (ticks w1)\<rparr>\<rparr>,
               w1\<lparr>trace := trace w1 @ [ReadWriteStd 0 (halt_steering c1) (leds c1), Sleep t,
                                         TimeTime (clock w1 (ticks w1))],
                  ticks := Suc (ticks w1)\<rparr>))
       \<and> (\<forall>e. r = Some e \<and> e \<noteq> NoContourException \<and> e \<noteq> NoImageException
               \<and> (\<forall>t. e \<noteq> StopException t) \<longrightarrow>
            EVLFControl_execute en c w = (Some e, c1, w1\<lparr>trace := trace w1 @ [Print e]\<rparr>))
       \<and> (\<forall>t. Sleep t \<in> set (cycle_trace w (snd (snd (EVLFControl_execute en c w)))) \<longrightarrow>
            r = Some (StopException t))"
proof -
  have a: "r = None \<longrightarrow> EVLFControl_execute en c w = (None, c1, w1)"
    using assms execute_pass by blast
  have b: "r = Some NoContourException \<or> r = Some NoImageException \<longrightarrow>
            EVLFControl_execute en c w = (None, c1, w1) \<and> writes (cycle_trace w w1) = []"
    using assms execute_skip try_raises_no_write by blast
  have s: "\<forall>t. r = Some (StopException t) \<and> 0 \<le> t \<longrightarrow>
            EVLFControl_execute en c w =
              (None, c1\<lparr>policy := (policy c1)\<lparr>start := clock w1 (ticks w1)\<rparr>\<rparr>,
               w1\<lparr>trace := trace w1 @ [ReadWriteStd 0 (halt_steering c1) (leds c1), Sleep t,
                                         TimeTime (clock w1 (ticks w1))],
                  ticks := Suc (ticks w1)\<rparr>)"
    using assms execute_stop by blast
  have o: "\<forall>e. r = Some e \<and> e \<noteq> NoContourException \<and> e \<noteq> NoImageException
               \<and> (\<forall>t. e \<noteq> StopException t) \<longrightarrow>
            EVLFControl_execute en c w = (Some e, c1, w1\<lparr>trace := trace w1 @ [Print e]\<rparr>)"
    using assms execute_reraise by blast
  have p: "\<forall>t. Sleep t \<in> set (cycle_trace w (snd (snd (EVLFControl_execute en c w)))) \<longrightarrow>
            r = Some (StopException t)"
    using assms execute_sleep_only_stop by blast
  from a b s o p show ?thesis by blast
qed

text \<open>Three cycles: the policy finds no contour, the policy fails, the policy asks for a stop.\<close>

theorem execute_handlers_witness:
  "fst (EVLFControl_try (policy_raises NoContourException) (car False (flags False False False)) world0)
       = Some NoContourException
   \<and> fst (EVLFControl_execute (policy_raises NoContourException) (car False (flags False False False)) world0)
       = None
   \<and> writes (cycle_trace world0 (snd (snd (EVLFControl_execute (policy_raises NoContourException)
        (car False (flags False False False)) world0)))) = []
   \<and> fst (EVLFControl_try (policy_raises (OtherException ''policy'')) (car False (flags False False False)) world0)
       = Some (OtherException ''policy'')
   \<and> EVLFControl_execute (policy_raises (OtherException ''policy'')) (car False (flags False False False)) world0
       = (Some (OtherException ''policy''), car False (flags False False False),
          world0\<lparr>trace := [EventIsSet, ReadImage, ExecutePolicy 0, Print (OtherException ''policy'')]\<rparr>)
   \<and> fst (EVLFControl_try (policy_raises (StopException 2)) (car False (flags False False False)) world0)
       = Some (StopException 2)
   \<and> trace (snd (snd (EVLFControl_execute (policy_raises (StopException 2))
        (car False (flags False False False)) world0)))
       = [EventIsSet, ReadImage, ExecutePolicy 0,
          ReadWriteStd 0 0 [0, 0, 0, 0, 0, 0, 0, 0], Sleep 2, TimeTime 0]"
proof -
  have t1: "EVLFControl_try (policy_raises NoContourException) (car False (flags False False False)) world0
      = (Some NoContourException, car False (flags False False False),
         world0\<lparr>trace := [EventIsSet, ReadImage, ExecutePolicy 0]\<rparr>)"
    by (simp add: cycle_defs fixture_defs)
  have t2: "EVLFControl_try (policy_raises (OtherException ''policy'')) (car False (flags False False False)) world0
      = (Some (OtherException ''policy''), car False (flags False False False),
         world0\<lparr>trace := [EventIsSet, ReadImage, ExecutePolicy 0]\<rparr>)"
    by (simp add: cycle_defs fixture_defs)
  have t3: "EVLFControl_try (policy_raises (StopException 2)) (car False (flags False False False)) world0
      = (Some (StopException 2), car False (flags False False False),
         world0\<lparr>trace := [EventIsSet, ReadImage, ExecutePolicy 0]\<rparr>)"
    by (simp add: cycle_defs fixture_defs)
  show ?thesis
    using execute_handlers [OF t1] execute_handlers [OF t2] execute_handlers [OF t3] t1 t2 t3
    by (simp add: fixture_defs cycle_trace_def writes_def)
qed

subsection \<open>The reduce factor\<close>

lemma handle_events_factor:
  "(event (event_wrapper c) \<and> event_types (event_wrapper c) ''horizontal_line'' = Some True \<longrightarrow>
      reduce_factor (fst (snd (handle_events c w))) = 0.67)
   \<and> (event (event_wrapper c) \<and> event_types (event_wrapper c) ''horizontal_line'' = Some False \<longrightarrow>
      reduce_factor (fst (snd (handle_events c w))) = 1.0)
   \<and> (\<not> event (event_wrapper c) \<longrightarrow> reduce_factor (fst (snd (handle_events c w))) = 1.0)"
  by (simp add: handle_events_def world_defs Let_def split: option.splits)

lemma try_scaled:
  "EVLFControl_try en c w = (None, c', w') \<Longrightarrow>
     reduce_factor c' = reduce_factor (fst (snd (handle_events c w)))
     \<and> writes (cycle_trace w w') =
         [ReadWriteStd (throttle (policy c') * \<bar>cos (2.0 * steering (policy c'))\<bar> * reduce_factor c')
            (steering (policy c')) (leds c')]"
  by (auto simp: cycle_defs split: option.splits sum.splits prod.splits if_splits)

lemma try_factor:
  "EVLFControl_try en c w = (r, c1, w1) \<Longrightarrow>
     reduce_factor c1 = reduce_factor (fst (snd (handle_events c w)))"
  by (auto simp: EVLFControl_try_def world_defs Let_def split: option.splits sum.splits prod.splits)

lemma execute_state:
  assumes "EVLFControl_try en c w = (r, c1, w1)"
  shows "reduce_factor (fst (snd (EVLFControl_execute en c w))) = reduce_factor c1"
proof (cases r)
  case None
  then show ?thesis using assms by (simp add: EVLFControl_execute_def)
next
  case (Some e)
  then show ?thesis using assms
    by (cases e) (simp_all add: EVLFControl_execute_def world_defs Let_def)
qed

lemma execute_factor:
  "reduce_factor (fst (snd (EVLFControl_execute en c w))) = reduce_factor (fst (snd (handle_events c w)))"
proof -
  obtain r c1 w1 where t: "EVLFControl_try en c w = (r, c1, w1)"
    by (cases "EVLFControl_try en c w") auto
  show ?thesis using execute_state [OF t] try_factor [OF t] by simp
qed

lemma write_in_writes: "ReadWriteStd thr st ls \<in> set tr \<Longrightarrow> ReadWriteStd thr st ls \<in> set (writes tr)"
  by (simp add: writes_def)

lemma execute_writes:
  assumes "ReadWriteStd thr st ls \<in> set (cycle_trace w (snd (snd (EVLFControl_execute en c w))))"
  shows "thr = 0 \<or>
     thr = throttle (policy (fst (snd (EVLFControl_execute en c w)))) * \<bar>cos (2.0 * st)\<bar>
             * reduce_factor (fst (snd (EVLFControl_execute en c w)))"
proof -
  obtain r c1 w1 where t: "EVLFControl_try en c w = (r, c1, w1)"
    by (cases "EVLFControl_try en c w") auto
  obtain tr where tr: "trace w1 = trace w @ tr"
    using try_extends [OF t] by blast
  show ?thesis
  proof (cases r)
    case None
    then have e: "EVLFControl_execute en c w = (None, c1, w1)"
      using t execute_pass by blast
    have "ReadWriteStd thr st ls \<in> set (writes (cycle_trace w w1))"
      using assms e write_in_writes by fastforce
    then show ?thesis
      using try_scaled [of en c w c1 w1] t None e by simp
  next
    case (Some e)
    then have nw: "writes tr = []"
      using try_raises_no_write [of en c w e c1 w1] t tr by (simp add: cycle_trace_def)
    then have "ReadWriteStd thr st ls \<notin> set tr"
      using write_in_writes by fastforce
    then show ?thesis
      using assms t tr Some
      by (cases e) (auto simp: EVLFControl_execute_def cycle_trace_def world_defs Let_def
          split: if_splits)
  qed
qed

lemma execute_runs_through:
  assumes "fst (handle_events c w) = None"
    and "read_image en = Inr img"
    and "execute_policy en img (policy c) = (None, p)"
  shows "fst (EVLFControl_execute en c w) = None
       \<and> writes (cycle_trace w (snd (snd (EVLFControl_execute en c w)))) =
           [ReadWriteStd
              (throttle p * \<bar>cos (2.0 * steering p)\<bar>
                 * reduce_factor (fst (snd (EVLFControl_execute en c w))))
              (steering p) (leds c)]"
proof -
  obtain c1 w1 where h: "handle_events c w = (None, c1, w1)"
    using assms(1) by (cases "handle_events c w") auto
  have pol: "policy c1 = policy c" and led: "leds c1 = leds c"
    using handle_events_policy [of c w] h by simp_all
  obtain ks where tr: "trace w1 = trace w @ EventIsSet # map GetFlag ks"
    using handle_events_trace [of c w] h by auto
  have nw: "filter is_write (map GetFlag ks) = []"
    by (induction ks) simp_all
  show ?thesis
    using h assms(2,3) pol led tr nw
    by (simp add: EVLFControl_execute_def EVLFControl_try_def world_defs Let_def
        cycle_trace_def writes_def)
qed

text \<open>
  C5. In every cycle of \<open>execute\<close>, also one that stops or is skipped, the reduce factor
  becomes 0.67 if the shared event is set and the flag \<open>horizontal_line\<close> is true, 1.0 if
  the event is set and the flag is false, and 1.0 if the event is not set; \<open>handle_events\<close>
  sets it so and nothing later in the cycle changes it. If the \<open>try\<close> body runs through,
  which it does when \<open>handle_events\<close>, the camera and the policy raise nothing, \<open>execute\<close>
  returns with exactly one actuator command, whose throttle is
  \<open>policy.throttle * abs(cos(2.0 * steering))\<close> times this factor. Every actuator command
  of a cycle is either that one or a halt command with throttle 0.
\<close>

theorem reduce_factor_scales_throttle:
  "(event (event_wrapper c) \<and> event_types (event_wrapper c) ''horizontal_line'' = Some True \<longrightarrow>
      reduce_factor (fst (snd (handle_events c w))) = 0.67
      \<and> reduce_factor (fst (snd (EVLFControl_execute en c w))) = 0.67)
   \<and> (event (event_wrapper c) \<and> event_types (event_wrapper c) ''horizontal_line'' = Some False \<longrightarrow>
      reduce_factor (fst (snd (handle_events c w))) = 1.0
      \<and> reduce_factor (fst (snd (EVLFControl_execute en c w))) = 1.0)
   \<and> (\<not> event (event_wrapper c) \<longrightarrow>
      reduce_factor (fst (snd (handle_events c w))) = 1.0
      \<and> reduce_factor (fst (snd (EVLFControl_execute en c w))) = 1.0)
   \<and> (\<forall>c' w'. EVLFControl_try en c w = (None, c', w') \<longrightarrow>
        EVLFControl_execute en c w = (None, c', w')
        \<and> reduce_factor c' = reduce_factor (fst (snd (handle_events c w)))
        \<and> writes (cycle_trace w w') =
            [ReadWriteStd (throttle (policy c') * \<bar>cos (2.0 * steering (policy c'))\<bar> * reduce_factor c')
               (steering (policy c')) (leds c')])
   \<and> (\<forall>img p. fst (handle_events c w) = None \<and> read_image en = Inr img
          \<and> execute_policy en img (policy c) = (None, p) \<longrightarrow>
        fst (EVLFControl_execute en c w) = None
        \<and> writes (cycle_trace w (snd (snd (EVLFControl_execute en c w)))) =
            [ReadWriteStd
               (throttle p * \<bar>cos (2.0 * steering p)\<bar>
                  * reduce_factor (fst (snd (EVLFControl_execute en c w))))
               (steering p) (leds c)])
   \<and> (\<forall>thr st ls. ReadWriteStd thr st ls \<in> set (cycle_trace w (snd (snd (EVLFControl_execute en c w)))) \<longrightarrow>
        thr = 0 \<or>
        thr = throttle (policy (fst (snd (EVLFControl_execute en c w)))) * \<bar>cos (2.0 * st)\<bar>
                * reduce_factor (fst (snd (EVLFControl_execute en c w))))"
proof -
  have f: "reduce_factor (fst (snd (EVLFControl_execute en c w)))
      = reduce_factor (fst (snd (handle_events c w)))"
    by (rule execute_factor)
  have a: "event (event_wrapper c) \<and> event_types (event_wrapper c) ''horizontal_line'' = Some True \<longrightarrow>
      reduce_factor (fst (snd (handle_events c w))) = 0.67
      \<and> reduce_factor (fst (snd (EVLFControl_execute en c w))) = 0.67"
    using handle_events_factor [of c w] f by simp
  have b: "event (event_wrapper c) \<and> event_types (event_wrapper c) ''horizontal_line'' = Some False \<longrightarrow>
      reduce_factor (fst (snd (handle_events c w))) = 1.0
      \<and> reduce_factor (fst (snd (EVLFControl_execute en c w))) = 1.0"
    using handle_events_factor [of c w] f by simp
  have n: "\<not> event (event_wrapper c) \<longrightarrow>
      reduce_factor (fst (snd (handle_events c w))) = 1.0
      \<and> reduce_factor (fst (snd (EVLFControl_execute en c w))) = 1.0"
    using handle_events_factor [of c w] f by simp
  have t: "\<forall>c' w'. EVLFControl_try en c w = (None, c', w') \<longrightarrow>
        EVLFControl_execute en c w = (None, c', w')
        \<and> reduce_factor c' = reduce_factor (fst (snd (handle_events c w)))
        \<and> writes (cycle_trace w w') =
            [ReadWriteStd (throttle (policy c') * \<bar>cos (2.0 * steering (policy c'))\<bar> * reduce_factor c')
               (steering (policy c')) (leds c')]"
    using try_scaled execute_pass by blast
  have r: "\<forall>img p. fst (handle_events c w) = None \<and> read_image en = Inr img
          \<and> execute_policy en img (policy c) = (None, p) \<longrightarrow>
        fst (EVLFControl_execute en c w) = None
        \<and> writes (cycle_trace w (snd (snd (EVLFControl_execute en c w)))) =
            [ReadWriteStd
               (throttle p * \<bar>cos (2.0 * steering p)\<bar>
                  * reduce_factor (fst (snd (EVLFControl_execute en c w))))
               (steering p) (leds c)]"
  proof (intro allI impI)
    fix img p
    assume "fst (handle_events c w) = None \<and> read_image en = Inr img
          \<and> execute_policy en img (policy c) = (None, p)"
    then show "fst (EVLFControl_execute en c w) = None
        \<and> writes (cycle_trace w (snd (snd (EVLFControl_execute en c w)))) =
            [ReadWriteStd
               (throttle p * \<bar>cos (2.0 * steering p)\<bar>
                  * reduce_factor (fst (snd (EVLFControl_execute en c w))))
               (steering p) (leds c)]"
      using execute_runs_through [of c w en img p] by simp
  qed
  have w: "\<forall>thr st ls. ReadWriteStd thr st ls \<in> set (cycle_trace w (snd (snd (EVLFControl_execute en c w)))) \<longrightarrow>
        thr = 0 \<or>
        thr = throttle (policy (fst (snd (EVLFControl_execute en c w)))) * \<bar>cos (2.0 * st)\<bar>
                * reduce_factor (fst (snd (EVLFControl_execute en c w)))"
    using execute_writes by blast
  from a b n t r w show ?thesis by blast
qed

text \<open>
  A cycle on a horizontal line: the factor is 0.67 and the throttle 0.1 is cut to 0.067.
  Off the line the factor is 1, and with the event not set a factor of 0.67 goes back to 1.
\<close>

theorem reduce_factor_scales_throttle_witness:
  "event (event_wrapper (car True (flags True False False)))
   \<and> event_types (event_wrapper (car True (flags True False False))) ''horizontal_line'' = Some True
   \<and> fst (handle_events (car True (flags True False False)) world0) = None
   \<and> read_image (steer_by_image 0) = Inr 0
   \<and> fst (execute_policy (steer_by_image 0) 0 (policy (car True (flags True False False)))) = None
   \<and> reduce_factor (fst (snd (EVLFControl_execute (steer_by_image 0)
        (car True (flags True False False)) world0))) = 0.67
   \<and> writes (cycle_trace world0 (snd (snd (EVLFControl_execute (steer_by_image 0)
        (car True (flags True False False)) world0))))
       = [ReadWriteStd (67 / 1000) 0 [0, 0, 0, 0, 0, 0, 0, 0]]
   \<and> event_types (event_wrapper (car True (flags False False False))) ''horizontal_line'' = Some False
   \<and> reduce_factor (fst (snd (EVLFControl_execute (steer_by_image 0)
        (car True (flags False False False)) world0))) = 1
   \<and> \<not> event (event_wrapper ((car False (flags True False False))\<lparr>reduce_factor := 0.67\<rparr>))
   \<and> reduce_factor (fst (snd (EVLFControl_execute (steer_by_image 0)
        ((car False (flags True False False))\<lparr>reduce_factor := 0.67\<rparr>) world0))) = 1"
proof -
  have e: "event (event_wrapper (car True (flags True False False)))
      \<and> event_types (event_wrapper (car True (flags True False False))) ''horizontal_line'' = Some True"
    by (simp add: fixture_defs)
  have h: "fst (handle_events (car True (flags True False False)) (world0 :: real world)) = None"
    by (simp add: handle_events_def world_defs Let_def fixture_defs)
  have i: "read_image (steer_by_image 0) = Inr 0"
    by (simp add: fixture_defs)
  have p: "execute_policy (steer_by_image 0) 0 (policy (car True (flags True False False)))
     = (None, \<lparr>steering = 0, throttle = 1 / 10, start = 0, internals = ()\<rparr>)"
    by (simp add: fixture_defs)
  note th = reduce_factor_scales_throttle
    [of "car True (flags True False False)" world0 "steer_by_image 0"]
  have f1: "reduce_factor (fst (snd (EVLFControl_execute (steer_by_image 0)
        (car True (flags True False False)) world0))) = 0.67"
    using th e by blast
  have w1: "writes (cycle_trace world0 (snd (snd (EVLFControl_execute (steer_by_image 0)
        (car True (flags True False False)) world0))))
       = [ReadWriteStd
            (throttle \<lparr>steering = 0, throttle = 1 / 10, start = 0, internals = ()\<rparr>
               * \<bar>cos (2.0 * steering \<lparr>steering = 0, throttle = 1 / 10, start = 0, internals = ()\<rparr>)\<bar>
               * reduce_factor (fst (snd (EVLFControl_execute (steer_by_image 0)
                   (car True (flags True False False)) world0))))
            (steering \<lparr>steering = 0, throttle = 1 / 10, start = 0, internals = ()\<rparr>)
            (leds (car True (flags True False False)))]"
    using th h i p by blast
  have e2: "event (event_wrapper (car True (flags False False False)))
      \<and> event_types (event_wrapper (car True (flags False False False))) ''horizontal_line'' = Some False"
    by (simp add: fixture_defs)
  have f2: "reduce_factor (fst (snd (EVLFControl_execute (steer_by_image 0)
        (car True (flags False False False)) world0))) = 1.0"
    using reduce_factor_scales_throttle
      [of "car True (flags False False False)" world0 "steer_by_image 0"] e2 by blast
  have e3: "\<not> event (event_wrapper ((car False (flags True False False))\<lparr>reduce_factor := 0.67\<rparr>))"
    by (simp add: fixture_defs)
  have f3: "reduce_factor (fst (snd (EVLFControl_execute (steer_by_image 0)
        ((car False (flags True False False))\<lparr>reduce_factor := 0.67\<rparr>) world0))) = 1.0"
    using reduce_factor_scales_throttle
      [of "(car False (flags True False False))\<lparr>reduce_factor := 0.67\<rparr>" world0 "steer_by_image 0"]
      e3 by blast
  show ?thesis
    using e h i p f1 w1 e2 f2 e3 f3 by (simp add: fixture_defs)
qed

subsection \<open>EVLFControl and VLFCar\<close>

text \<open>The cosine falls between 0.8 and 0.82, and is positive there.\<close>

lemma cos_205_less: "cos (41 / 50 :: real) < cos (4 / 5)"
proof -
  have "(41 / 50 :: real) \<le> pi" using pi_ge_two by simp
  then show ?thesis by (intro cos_monotone_0_pi) simp_all
qed

lemma cos_205_pos: "0 < cos (41 / 50 :: real)"
proof -
  have "(41 / 50 :: real) < pi / 2" using pi_ge_two by simp
  then show ?thesis by (intro cos_gt_zero) simp_all
qed

text \<open>
  C8, as amended. In a cycle in which the shared event is not set and the camera and the
  policy return normally, \<open>EVLFControl.execute\<close> and \<open>VLFCar.execute\<close>, on the same image
  and policy state, each return normally, leave the same policy state and write exactly
  one actuator command, with the same steering and LEDs. The throttle of EVLFControl is
  \<open>policy.throttle * abs(cos(2.0 * steering))\<close>, that of VLFCar is
  \<open>policy.throttle * abs(cos(2.05 * steering))\<close>; the two commands are the same exactly
  when these two products are equal.
\<close>

theorem same_steering_other_throttle:
  assumes "\<not> event (event_wrapper c)"
    and "read_image en = Inr img"
    and "execute_policy en img (policy c) = (None, p)"
  shows "writes (cycle_trace w (snd (snd (EVLFControl_execute en c w))))
           = [ReadWriteStd (throttle p * \<bar>cos (2.0 * steering p)\<bar>) (steering p) (leds c)]
       \<and> writes (cycle_trace w (snd (snd (VLFCar_execute en c w))))
           = [ReadWriteStd (throttle p * \<bar>cos (2.05 * steering p)\<bar>) (steering p) (leds c)]
       \<and> policy (fst (snd (EVLFControl_execute en c w))) = p
       \<and> policy (fst (snd (VLFCar_execute en c w))) = p
       \<and> fst (EVLFControl_execute en c w) = None
       \<and> fst (VLFCar_execute en c w) = None
       \<and> ((writes (cycle_trace w (snd (snd (EVLFControl_execute en c w))))
             = writes (cycle_trace w (snd (snd (VLFCar_execute en c w)))))
            = (throttle p * \<bar>cos (2.0 * steering p)\<bar> = throttle p * \<bar>cos (2.05 * steering p)\<bar>))"
  using assms by (simp add: cycle_defs)

text \<open>With steering 0 both classes write the throttle 0.1.\<close>

theorem same_steering_other_throttle_witness:
  "\<not> event (event_wrapper (car False (flags False False False)))
   \<and> read_image (steer_by_image 0) = Inr 0
   \<and> fst (execute_policy (steer_by_image 0) 0 (policy (car False (flags False False False)))) = None
   \<and> writes (cycle_trace world0 (snd (snd (EVLFControl_execute (steer_by_image 0)
        (car False (flags False False False)) world0))))
       = [ReadWriteStd (1 / 10) 0 [0, 0, 0, 0, 0, 0, 0, 0]]
   \<and> writes (cycle_trace world0 (snd (snd (VLFCar_execute (steer_by_image 0)
        (car False (flags False False False)) world0))))
       = [ReadWriteStd (1 / 10) 0 [0, 0, 0, 0, 0, 0, 0, 0]]"
proof -
  have e: "\<not> event (event_wrapper (car False (flags False False False)))"
    by (simp add: fixture_defs)
  have i: "read_image (steer_by_image 0) = Inr 0"
    by (simp add: fixture_defs)
  have p: "execute_policy (steer_by_image 0) 0 (policy (car False (flags False False False)))
     = (None, (policy (car False (flags False False False)))\<lparr>steering := 0\<rparr>)"
    by (simp add: fixture_defs)
  show ?thesis
    using same_steering_other_throttle [OF e i p, of world0] e i p
    by (simp add: fixture_defs)
qed

text \<open>
  C8 as it is stated fails at steering 0.4 and throttle 0.1 with the event not set:
  EVLFControl writes the throttle \<open>0.1 * abs(cos(0.8))\<close>, VLFCar the smaller
  \<open>0.1 * abs(cos(0.82))\<close>.
\<close>

theorem throttle_differs_counterexample:
  "\<not> event (event_wrapper (car False (flags False False False)))
   \<and> writes (cycle_trace world0 (snd (snd (EVLFControl_execute (steer_by_image (2 / 5))
        (car False (flags False False False)) world0))))
       = [ReadWriteStd (1 / 10 * \<bar>cos (4 / 5)\<bar>) (2 / 5) [0, 0, 0, 0, 0, 0, 0, 0]]
   \<and> writes (cycle_trace world0 (snd (snd (VLFCar_execute (steer_by_image (2 / 5))
        (car False (flags False False False)) world0))))
       = [ReadWriteStd (1 / 10 * \<bar>cos (41 / 50)\<bar>) (2 / 5) [0, 0, 0, 0, 0, 0, 0, 0]]
   \<and> 1 / 10 * \<bar>cos (41 / 50 :: real)\<bar> < 1 / 10 * \<bar>cos (4 / 5)\<bar>
   \<and> writes (cycle_trace world0 (snd (snd (EVLFControl_execute (steer_by_image (2 / 5))
        (car False (flags False False False)) world0))))
       \<noteq> writes (cycle_trace world0 (snd (snd (VLFCar_execute (steer_by_image (2 / 5))
        (car False (flags False False False)) world0))))"
proof -
  have a: "writes (cycle_trace world0 (snd (snd (EVLFControl_execute (steer_by_image (2 / 5))
        (car False (flags False False False)) world0))))
       = [ReadWriteStd (1 / 10 * \<bar>cos (4 / 5)\<bar>) (2 / 5) [0, 0, 0, 0, 0, 0, 0, 0]]"
    by (simp add: cycle_defs fixture_defs)
  have b: "writes (cycle_trace world0 (snd (snd (VLFCar_execute (steer_by_image (2 / 5))
        (car False (flags False False False)) world0))))
       = [ReadWriteStd (1 / 10 * \<bar>cos (41 / 50)\<bar>) (2 / 5) [0, 0, 0, 0, 0, 0, 0, 0]]"
    by (simp add: cycle_defs fixture_defs)
  have c: "1 / 10 * \<bar>cos (41 / 50 :: real)\<bar> < 1 / 10 * \<bar>cos (4 / 5)\<bar>"
    using cos_205_less cos_205_pos by simp
  have e: "\<not> event (event_wrapper (car False (flags False False False)))"
    by (simp add: fixture_defs)
  from c have "1 / 10 * \<bar>cos (41 / 50 :: real)\<bar> \<noteq> 1 / 10 * \<bar>cos (4 / 5)\<bar>" by simp
  with a b c e show ?thesis by simp
qed

section \<open>Properties of the observer cycle\<close>

lemma publish_trace: "trace (snd (publish en kvs ev w)) = trace w @ map republish kvs"
  by (induction en kvs ev w rule: publish.induct)
    (simp_all add: events_set_def events_clear_def log_def republish_def)

lemma map_add_snoc: "m ++ map_of (xs @ [(k, v)]) = m(k \<mapsto> v) ++ map_of xs"
  by (simp add: fun_eq_iff map_add_def split: option.splits)

lemma publish_step:
  "publish en ((key, v) # kvs) ev w =
     publish en kvs \<lparr>event = resignal en key v ev, event_types = (event_types ev)(key \<mapsto> v)\<rparr>
       (log (republish (key, v)) w)"
  by (simp add: events_set_def events_clear_def republish_def)

lemma publish_flags:
  "event_types (fst (publish en kvs ev w)) = event_types ev ++ map_of (rev kvs)"
proof (induction kvs arbitrary: ev w)
  case Nil
  then show ?case by simp
next
  case (Cons kv kvs)
  obtain key v where kv: "kv = (key, v)" by (cases kv)
  have "event_types (fst (publish en (kv # kvs) ev w))
      = (event_types ev)(key \<mapsto> v) ++ map_of (rev kvs)"
    unfolding kv publish_step Cons.IH by simp
  also have "\<dots> = event_types ev ++ map_of (rev kvs @ [(key, v)])"
    by (rule map_add_snoc [symmetric])
  finally show ?case by (simp add: kv)
qed

lemma published_flag:
  assumes "distinct (map fst kvs)" and "(k, v) \<in> set kvs"
  shows "event_types (fst (publish en kvs ev w)) k = Some v"
proof -
  have "distinct (map fst (rev kvs))" using assms(1) by (simp add: rev_map [symmetric])
  moreover have "(k, v) \<in> set (rev kvs)" using assms(2) by simp
  ultimately have "map_of (rev kvs) k = Some v" by (rule map_of_is_SomeI)
  then show ?thesis by (simp add: publish_flags map_add_def)
qed

lemma unpublished_flag:
  assumes "k \<notin> fst ` set kvs"
  shows "event_types (fst (publish en kvs ev w)) k = event_types ev k"
proof -
  have "map_of (rev kvs) k = None" using assms by (simp add: map_of_eq_None_iff)
  then show ?thesis by (simp add: publish_flags map_add_def)
qed

text \<open>
  C6. In an observer cycle in which a non-None image is read and the pipeline returns,
  \<open>execute\<close> calls the pipeline once on that image and then, for every item of its
  \<open>detection_flags\<close> in order, calls \<open>events.set(key)\<close> if the value is true and
  \<open>events.clear(key)\<close> if it is false, and returns normally. Afterwards every key of
  \<open>detection_flags\<close> (a dictionary: each key once) has its detected value in the shared
  flags, whatever it was before, and every other flag is as it was.
\<close>

theorem observer_republishes:
  assumes "read_rgb_image en = Inr (Some img)"
    and "pipeline_call en img (pipeline ob) = (None, pl)"
    and "distinct (map fst (detection_flags pl))"
  shows "fst (EVLFObserver_execute en ob w) = None
       \<and> pipeline (fst (snd (EVLFObserver_execute en ob w))) = pl
       \<and> trace (snd (snd (EVLFObserver_execute en ob w)))
           = trace w @ ReadRgbImage # Pipeline img # map republish (detection_flags pl)
       \<and> (\<forall>k v. (k, v) \<in> set (detection_flags pl) \<longrightarrow>
             event_types (events (fst (snd (EVLFObserver_execute en ob w)))) k = Some v)
       \<and> (\<forall>k. k \<notin> fst ` set (detection_flags pl) \<longrightarrow>
             event_types (events (fst (snd (EVLFObserver_execute en ob w)))) k
               = event_types (events ob) k)"
proof -
  have e: "EVLFObserver_execute en ob w =
      (None,
       ob\<lparr>pipeline := pl, events := fst (publish en (detection_flags pl) (events ob)
                                          (log (Pipeline img) (log ReadRgbImage w)))\<rparr>,
       snd (publish en (detection_flags pl) (events ob) (log (Pipeline img) (log ReadRgbImage w))))"
    using assms(1,2)
    by (simp add: EVLFObserver_execute_def EVLFObserver_try_def Let_def split: prod.splits)
  show ?thesis
    using assms(3)
    by (simp add: e publish_trace published_flag unpublished_flag log_def)
qed

text \<open>
  A stop sign and no red light are detected while the shared flags say the opposite; the
  flag \<open>horizontal_line\<close>, not in the result, stays.
\<close>

theorem observer_republishes_witness:
  "read_rgb_image (detects [(''stop_sign'', True), (''red_light'', False)]) = Inr (Some 0)
   \<and> fst (pipeline_call (detects [(''stop_sign'', True), (''red_light'', False)]) 0 (pipeline observer0)) = None
   \<and> distinct (map fst [(''stop_sign'', True), (''red_light'', False)])
   \<and> event_types (events observer0) ''stop_sign'' = Some False
   \<and> event_types (events observer0) ''red_light'' = Some True
   \<and> trace (snd (snd (EVLFObserver_execute (detects [(''stop_sign'', True), (''red_light'', False)])
        observer0 world0)))
       = [ReadRgbImage, Pipeline 0, EventsSet ''stop_sign'', EventsClear ''red_light'']
   \<and> event_types (events (fst (snd (EVLFObserver_execute
        (detects [(''stop_sign'', True), (''red_light'', False)]) observer0 world0)))) ''stop_sign''
       = Some True
   \<and> event_types (events (fst (snd (EVLFObserver_execute
        (detects [(''stop_sign'', True), (''red_light'', False)]) observer0 world0)))) ''red_light''
       = Some False
   \<and> event_types (events (fst (snd (EVLFObserver_execute
        (detects [(''stop_sign'', True), (''red_light'', False)]) observer0 world0)))) ''horizontal_line''
       = Some True"
proof -
  have i: "read_rgb_image (detects [(''stop_sign'', True), (''red_light'', False)]) = Inr (Some 0)"
    by (simp add: detects_def)
  have p: "pipeline_call (detects [(''stop_sign'', True), (''red_light'', False)]) 0 (pipeline observer0)
      = (None, \<lparr>detection_flags = [(''stop_sign'', True), (''red_light'', False)],
                pipeline_internals = ()\<rparr>)"
    by (simp add: detects_def observer0_def)
  have d: "distinct (map fst (detection_flags \<lparr>detection_flags = [(''stop_sign'', True), (''red_light'', False)],
                pipeline_internals = ()\<rparr>))"
    by simp
  note th = observer_republishes [OF i p d, of world0]
  have s: "(''stop_sign'', True) \<in> set (detection_flags
      \<lparr>detection_flags = [(''stop_sign'', True), (''red_light'', False)], pipeline_internals = ()\<rparr>)"
    by simp
  have r: "(''red_light'', False) \<in> set (detection_flags
      \<lparr>detection_flags = [(''stop_sign'', True), (''red_light'', False)], pipeline_internals = ()\<rparr>)"
    by simp
  have h: "''horizontal_line'' \<notin> fst ` set (detection_flags
      \<lparr>detection_flags = [(''stop_sign'', True), (''red_light'', False)], pipeline_internals = ()\<rparr>)"
    by simp
  have t: "trace (snd (snd (EVLFObserver_execute (detects [(''stop_sign'', True), (''red_light'', False)])
        observer0 world0)))
       = [ReadRgbImage, Pipeline 0, EventsSet ''stop_sign'', EventsClear ''red_light'']"
    using th by (simp add: world0_def republish_def)
  have fs: "event_types (events (fst (snd (EVLFObserver_execute
        (detects [(''stop_sign'', True), (''red_light'', False)]) observer0 world0)))) ''stop_sign''
       = Some True"
    using th s by blast
  have fr: "event_types (events (fst (snd (EVLFObserver_execute
        (detects [(''stop_sign'', True), (''red_light'', False)]) observer0 world0)))) ''red_light''
       = Some False"
    using th r by blast
  have fh: "event_types (events (fst (snd (EVLFObserver_execute
        (detects [(''stop_sign'', True), (''red_light'', False)]) observer0 world0)))) ''horizontal_line''
       = event_types (events observer0) ''horizontal_line''"
    using th h by blast
  show ?thesis
    using i p t fs fr fh by (simp add: observer0_def flags_def)
qed

section \<open>Properties of the simulation bootstrap\<close>




section \<open>Properties of \<open>handle_interprocess\<close>\<close>

text \<open>
  With room in the queue the item is appended. On a full queue the call waits for ever
  when it blocks without a timeout, and raises AttributeError otherwise: the handler that
  would drop an item and put again is never entered.
\<close>

lemma handle_interprocess_room:
  "\<not> full q \<Longrightarrow> handle_interprocess q item block timeout = Returns (q\<lparr>items := items q @ [item]\<rparr>)"
  by (simp add: handle_interprocess_def put_def)

lemma handle_interprocess_full:
  "full q \<Longrightarrow> handle_interprocess q item block timeout =
     (if block \<and> timeout = None then Blocks else Raises (AttributeError ''Full''))"
  by (simp add: handle_interprocess_def put_def Queue_Full_def)

text \<open>
  C10 fails on the code. On a full queue of size 1, \<open>handle_interprocess\<close> with
  \<open>block=False\<close>, or with a timeout, raises AttributeError; the item is not inserted.
\<close>

theorem full_queue_raises:
  "full \<lparr>maxsize = 1, items = [1 :: nat]\<rparr>
   \<and> handle_interprocess \<lparr>maxsize = 1, items = [1 :: nat]\<rparr> 2 False None
       = Raises (AttributeError ''Full'')
   \<and> handle_interprocess \<lparr>maxsize = 1, items = [1 :: nat]\<rparr> 2 True (Some 1)
       = Raises (AttributeError ''Full'')"
  by (simp add: handle_interprocess_def put_def Queue_Full_def full_def)

end
